theory Spec2Isabelle
  imports Main
begin

section \<open>Strings: \<open>toLowerCase\<close>, \<open>trim\<close> and the normalized email\<close>

text \<open>
  Strings are lists of 8-bit characters, read as the code points U+0000 to U+00FF.
  On these, JavaScript's \<open>String.prototype.toLowerCase\<close> maps A-Z and the Latin-1
  capitals U+00C0 to U+00DE (the multiplication sign U+00D7 excepted) 32 places up and
  leaves every other character alone; \<open>String.prototype.trim\<close> removes, at both ends,
  TAB, LF, VT, FF, CR, SPACE and the no-break space U+00A0.
\<close>

definition toLowerCase_char :: "char \<Rightarrow> char" where
  "toLowerCase_char c =
     (let n = (of_char c :: nat)
      in if (65 \<le> n \<and> n \<le> 90) \<or> (192 \<le> n \<and> n \<le> 222 \<and> n \<noteq> 215)
         then char_of (n + 32) else c)"

definition toLowerCase :: "string \<Rightarrow> string" where
  "toLowerCase s = map toLowerCase_char s"

definition isWhiteSpace :: "char \<Rightarrow> bool" where
  "isWhiteSpace c = ((of_char c :: nat) \<in> {9, 10, 11, 12, 13, 32, 160})"

definition trim :: "string \<Rightarrow> string" where
  "trim s = rev (dropWhile isWhiteSpace (rev (dropWhile isWhiteSpace s)))"

text \<open>
  \<^verbatim>\<open>const normalizedEmail = email.toLowerCase().trim();\<close>
  (the same expression in the patient route's GET and POST, in both services and in
  \<open>signIn\<close>).
\<close>

definition normalizedEmail :: "string \<Rightarrow> string" where
  "normalizedEmail email = trim (toLowerCase email)"

text \<open>A JavaScript string is falsy exactly when it is absent (null, undefined) or empty.\<close>

definition falsy :: "string option \<Rightarrow> bool" where
  "falsy s = (case s of None \<Rightarrow> True | Some v \<Rightarrow> v = [])"

text \<open>A template literal renders a null as the four characters \<open>null\<close>.\<close>

definition template :: "string option \<Rightarrow> string" where
  "template s = (case s of None \<Rightarrow> ''null'' | Some v \<Rightarrow> v)"

fun join :: "string \<Rightarrow> string list \<Rightarrow> string" where
  "join sep [] = []"
| "join sep [x] = x"
| "join sep (x # y # ys) = x @ sep @ join sep (y # ys)"

section \<open>Data model (\<open>types/index.ts\<close>)\<close>

record Insurance =
  provider :: string
  memberId :: string

text \<open>
  \<open>Patient\<close> as the code fills it at run time. The type declares \<open>email: string\<close>;
  the handlers copy the remote user's email into it unchecked, so the field holds the
  remote's null (\<open>None\<close>) when the remote sends one.
\<close>

record Patient =
  pat_id :: string
  firstName :: string
  lastName :: string
  pat_email :: "string option"
  pat_dob :: "string option"
  sexAtBirth :: "string option"
  insurance :: "Insurance option"
  phone :: "string option"

datatype FormStatus = Pending | Completed

record FormTask =
  task_id :: string
  title :: string
  status :: FormStatus

record Appointment =
  apt_id :: string
  startsAt :: string

text \<open>
  Times are milliseconds since the epoch, as \<open>Date.now()\<close> and \<open>getTime()\<close> give them.
  \<open>expiresAt\<close> holds the instant whose ISO rendering the source stores.
\<close>

record Session =
  sessionId :: string
  ses_email :: string
  expiresAt :: int

section \<open>Exceptions\<close>

text \<open>Every \<open>throw\<close> of the source, and the exceptions the runtime raises, as values.\<close>

datatype exn =
    NoApiKey  \<comment> \<open>\<open>Error('No API key available')\<close>\<close>
  | ApiKeyRequired  \<comment> \<open>\<open>Error('HEALTHIE_API_KEY environment variable is required')\<close>\<close>
  | FetchFailed  \<comment> \<open>\<open>fetch\<close> rejects\<close>
  | RequestTimeout  \<comment> \<open>\<open>Error('Healthie API request timeout')\<close>\<close>
  | HealthieApiError nat string  \<comment> \<open>\<open>Healthie API error: status - text\<close>\<close>
  | GraphQLErrors string  \<comment> \<open>\<open>GraphQL errors: ...\<close>\<close>
  | BadJson  \<comment> \<open>\<open>json()\<close> on a body that is not JSON, or a property read of a null body\<close>
  | TypeError  \<comment> \<open>a method called on null: \<open>u.email.toLowerCase()\<close> with a null email\<close>
  | FailedToCreatePatient nat  \<comment> \<open>\<open>Failed to create patient: status\<close>\<close>
  | FailedToUpdateDemographics nat  \<comment> \<open>\<open>Failed to update demographics: status\<close>\<close>
  | FailedToCreateOrFind  \<comment> \<open>\<open>Error('Failed to create or find patient')\<close>\<close>

section \<open>The remote GraphQL API\<close>

text \<open>
  The fields the queries select of a remote user, which the code reads as \<open>any\<close>.
  \<open>email\<close> is the one field it calls a method on (\<open>u.email.toLowerCase()\<close>): it is
  a string or the remote's null (\<open>None\<close>), and on null the call throws. The other
  fields are only copied: \<open>id\<close>, \<open>first_name\<close> and \<open>last_name\<close> to the string
  fields of \<open>Patient\<close>, \<open>dob\<close>, \<open>sex\<close> and \<open>phone_number\<close> to optional ones.
\<close>

record RemoteUser =
  usr_id :: string
  first_name :: string
  last_name :: string
  usr_email :: "string option"
  usr_dob :: "string option"
  sex :: "string option"
  phone_number :: "string option"

record Message =
  msg_field :: "string option"
  msg_message :: "string option"

text \<open>The payload of \<open>createClient\<close> and of \<open>updateUser\<close>: \<open>{ user, messages }\<close>.\<close>

record MutationPayload =
  user :: "RemoteUser option"
  messages :: "Message list option"

text \<open>\<open>result.data\<close>: an object with the key of the operation; an absent key is \<open>None\<close>.\<close>

record GqlData =
  users :: "RemoteUser list option"
  createClient :: "MutationPayload option"
  updateUser :: "MutationPayload option"

datatype GqlResult = GqlResult (errors: "string option") (data: "GqlData option")

record createClientInput =
  cc_email :: string
  cc_first_name :: string
  cc_last_name :: string
  cc_phone_number :: "string option"
  dont_send_welcome :: bool
  skip_set_password_state :: bool

record updateUserInput =
  uu_id :: string
  uu_dob :: "string option"
  uu_sex :: "string option"

datatype Operation =
    FindUserByEmail string  \<comment> \<open>\<open>users(keywords: $email)\<close>, with the variable \<open>email\<close>\<close>
  | CreateClient createClientInput
  | UpdateUser updateUserInput

datatype RemoteRequest =
  RemoteRequest (url: string) (authorization: string) (operation: Operation)

text \<open>
  What a POST to the remote API comes to: the fetch rejects, nothing comes back, or a
  response arrives with its status, its text and its body as \<open>response.json()\<close> gives
  it, seen through the two properties the code reads, \<open>errors\<close> and \<open>data\<close> (both
  absent on a JSON value that is no object). The body is \<open>None\<close> when the text is not
  JSON, or is the JSON null: then \<open>json()\<close>, or the read of \<open>result.errors\<close>, throws.
\<close>

datatype RemoteReply =
    FetchRejected
  | NoReply
  | HttpReply nat string "GqlResult option"

type_synonym remote = "RemoteRequest \<Rightarrow> RemoteReply"

text \<open>\<open>process.env\<close>: the two variables the code reads.\<close>

record Env =
  HEALTHIE_API_URL :: "string option"
  HEALTHIE_API_KEY :: "string option"

text \<open>\<open>response.ok\<close>\<close>

definition ok :: "nat \<Rightarrow> bool" where
  "ok st = (200 \<le> st \<and> st \<le> 299)"

section \<open>The patient route (\<open>api/healthie/patient/route.ts\<close>)\<close>

text \<open>
  A handler returns the requests it sent to the remote API, in order, and its response.
\<close>

datatype ApiBody =
    PatientEnvelope "Patient option"  \<comment> \<open>\<open>{ patient: ... }\<close>\<close>
  | PatientFields Patient  \<comment> \<open>\<open>{ id, firstName, lastName, email, ... }\<close>\<close>
  | FormsEnvelope "FormTask list option"  \<comment> \<open>\<open>{ forms: ... }\<close>\<close>
  | AppointmentsEnvelope "Appointment list option"  \<comment> \<open>\<open>{ appointments: ... }\<close>\<close>
  | ErrorEnvelope string  \<comment> \<open>\<open>{ error: ... }\<close>\<close>

datatype ApiResponse = Response (status_of: nat) (body_of: ApiBody)

text \<open>
  \<^verbatim>\<open>const HEALTHIE_API_URL = process.env.HEALTHIE_API_URL || 'https://api.gethealthie.com/graphql';\<close>
  \<^verbatim>\<open>const HEALTHIE_API_KEY = process.env.HEALTHIE_API_KEY || '';\<close>
\<close>

definition route_API_URL :: "Env \<Rightarrow> string" where
  "route_API_URL env =
     (if falsy (HEALTHIE_API_URL env) then ''https://api.gethealthie.com/graphql''
      else the (HEALTHIE_API_URL env))"

definition route_API_KEY :: "Env \<Rightarrow> string" where
  "route_API_KEY env = (if falsy (HEALTHIE_API_KEY env) then [] else the (HEALTHIE_API_KEY env))"

text \<open>
  \<open>makeGraphQLRequest\<close> of the route: the key is checked before anything is sent. It
  sets no timeout of its own, so a request that is never answered ends when the runtime
  gives up on it, as a rejected fetch.
\<close>

definition makeGraphQLRequest ::
  "Env \<Rightarrow> remote \<Rightarrow> Operation \<Rightarrow> RemoteRequest list \<times> (exn + GqlData option)" where
  "makeGraphQLRequest env remote op =
     (if route_API_KEY env = [] then ([], Inl NoApiKey)
      else
        let req = RemoteRequest (route_API_URL env) (''Basic '' @ route_API_KEY env) op
        in ([req],
            case remote req of
              FetchRejected \<Rightarrow> Inl FetchFailed
            | NoReply \<Rightarrow> Inl FetchFailed
            | HttpReply st txt result \<Rightarrow>
                if \<not> ok st then Inl (HealthieApiError st txt)
                else (case result of
                        None \<Rightarrow> Inl BadJson
                      | Some r \<Rightarrow>
                          (case errors r of
                             Some e \<Rightarrow> Inl (GraphQLErrors e)
                           | None \<Rightarrow> Inr (data r)))))"

text \<open>
  \<^verbatim>\<open>users.find((u: any) => u.email.toLowerCase() === normalizedEmail)\<close>:
  the candidates are tried in order up to the first match, and a candidate whose email
  is null, met before a match, throws.
\<close>

fun find_email :: "string \<Rightarrow> RemoteUser list \<Rightarrow> exn + RemoteUser option" where
  "find_email normalized [] = Inr None"
| "find_email normalized (u # us) =
     (case usr_email u of
        None \<Rightarrow> Inl TypeError
      | Some e \<Rightarrow> if toLowerCase e = normalized then Inr (Some u) else find_email normalized us)"

text \<open>
  The object literal both lookups build from the matching remote user (\<open>patientData\<close> in
  the route); \<open>insurance\<close> is not a key of it.
\<close>

definition patientData :: "RemoteUser \<Rightarrow> Patient" where
  "patientData u =
     \<lparr>pat_id = usr_id u, firstName = first_name u, lastName = last_name u,
      pat_email = usr_email u, pat_dob = usr_dob u, sexAtBirth = sex u,
      insurance = None, phone = phone_number u\<rparr>"

text \<open>\<open>usersData?.users\<close>, \<open>data?.createClient\<close>, \<open>data?.updateUser\<close>\<close>

definition users_of :: "GqlData option \<Rightarrow> RemoteUser list option" where
  "users_of d = (case d of None \<Rightarrow> None | Some v \<Rightarrow> users v)"

definition createClient_of :: "GqlData option \<Rightarrow> MutationPayload option" where
  "createClient_of d = (case d of None \<Rightarrow> None | Some v \<Rightarrow> createClient v)"

definition updateUser_of :: "GqlData option \<Rightarrow> MutationPayload option" where
  "updateUser_of d = (case d of None \<Rightarrow> None | Some v \<Rightarrow> updateUser v)"

text \<open>
  \<open>GET\<close>: the argument is \<open>searchParams.get('email')\<close>, null when the parameter is
  absent. Any exception of the \<open>try\<close> block ends in the 500 response.
\<close>

definition patient_GET :: "Env \<Rightarrow> remote \<Rightarrow> string option \<Rightarrow> RemoteRequest list \<times> ApiResponse" where
  "patient_GET env remote email =
     (if falsy email then ([], Response 400 (ErrorEnvelope ''Email parameter is required''))
      else
        let normalized = normalizedEmail (the email);
            (sent, usersData) = makeGraphQLRequest env remote (FindUserByEmail normalized)
        in (sent,
            case usersData of
              Inl err \<Rightarrow> Response 500 (ErrorEnvelope ''Failed to find patient'')
            | Inr d \<Rightarrow>
                (case users_of d of
                   None \<Rightarrow> Response 200 (PatientEnvelope None)
                 | Some us \<Rightarrow>
                     if length us > 0 then
                       (case find_email normalized us of
                          Inl err \<Rightarrow> Response 500 (ErrorEnvelope ''Failed to find patient'')
                        | Inr (Some u) \<Rightarrow> Response 200 (PatientEnvelope (Some (patientData u)))
                        | Inr None \<Rightarrow> Response 200 (PatientEnvelope None))
                     else Response 200 (PatientEnvelope None))))"

text \<open>
  The mutations' validation messages:
  \<^verbatim>\<open>messages.map((msg: any) => `${msg.field}: ${msg.message}`).join(', ')\<close>
\<close>

definition validationErrors :: "Message list \<Rightarrow> string" where
  "validationErrors ms =
     join '', '' (map (\<lambda>msg. template (msg_field msg) @ '': '' @ template (msg_message msg)) ms)"

text \<open>
  \<open>POST\<close>: the argument is the parsed request body, \<open>None\<close> when \<open>request.json()\<close>
  throws; its five keys are strings or absent.
\<close>

record CreateBody =
  cb_email :: "string option"
  cb_password :: "string option"
  cb_firstName :: "string option"
  cb_lastName :: "string option"
  cb_phone :: "string option"

definition patient_POST :: "Env \<Rightarrow> remote \<Rightarrow> CreateBody option \<Rightarrow> RemoteRequest list \<times> ApiResponse" where
  "patient_POST env remote body =
     (case body of
        None \<Rightarrow> ([], Response 500 (ErrorEnvelope ''Failed to create patient''))
      | Some b \<Rightarrow>
          if falsy (cb_email b) \<or> falsy (cb_password b) \<or> falsy (cb_firstName b) \<or>
             falsy (cb_lastName b)
          then ([], Response 400 (ErrorEnvelope ''Missing required fields''))
          else
            let variables =
                  \<lparr>cc_email = trim (toLowerCase (the (cb_email b))),
                   cc_first_name = the (cb_firstName b),
                   cc_last_name = the (cb_lastName b),
                   cc_phone_number = cb_phone b,
                   dont_send_welcome = True,
                   skip_set_password_state = True\<rparr>;
                (sent, res) = makeGraphQLRequest env remote (CreateClient variables)
            in (sent,
                case res of
                  Inl err \<Rightarrow> Response 500 (ErrorEnvelope ''Failed to create patient'')
                | Inr d \<Rightarrow>
                    (case createClient_of d of
                       None \<Rightarrow> Response 500 (ErrorEnvelope ''Failed to create patient'')
                     | Some payload \<Rightarrow>
                         if (case messages payload of None \<Rightarrow> False | Some ms \<Rightarrow> length ms > 0)
                         then Response 400
                                (ErrorEnvelope (''Validation errors: '' @
                                   validationErrors (the (messages payload))))
                         else
                           (case user payload of
                              None \<Rightarrow> Response 500 (ErrorEnvelope ''Failed to create patient'')
                            | Some u \<Rightarrow>
                                Response 200
                                  (PatientFields
                                     \<lparr>pat_id = usr_id u, firstName = first_name u,
                                      lastName = last_name u, pat_email = usr_email u,
                                      pat_dob = None, sexAtBirth = None, insurance = None,
                                      phone = phone_number u\<rparr>)))))"

text \<open>
  \<open>PATCH\<close>: the body is \<open>{ id, demographics }\<close>, the demographics an object
  \<open>{ dob, sexAtBirth, insurance }\<close>.
\<close>

record Demographics =
  dem_dob :: "string option"
  dem_sexAtBirth :: "string option"
  dem_insurance :: "Insurance option"

record UpdateBody =
  ub_id :: "string option"
  ub_demographics :: "Demographics option"

definition patient_PATCH :: "Env \<Rightarrow> remote \<Rightarrow> UpdateBody option \<Rightarrow> RemoteRequest list \<times> ApiResponse" where
  "patient_PATCH env remote body =
     (case body of
        None \<Rightarrow> ([], Response 500 (ErrorEnvelope ''Failed to update patient demographics''))
      | Some b \<Rightarrow>
          if falsy (ub_id b) \<or> ub_demographics b = None
          then ([], Response 400 (ErrorEnvelope ''Missing required fields''))
          else
            let demographics = the (ub_demographics b);
                variables =
                  \<lparr>uu_id = the (ub_id b), uu_dob = dem_dob demographics,
                   uu_sex = dem_sexAtBirth demographics\<rparr>;
                (sent, res) = makeGraphQLRequest env remote (UpdateUser variables)
            in (sent,
                case res of
                  Inl err \<Rightarrow> Response 500 (ErrorEnvelope ''Failed to update patient demographics'')
                | Inr d \<Rightarrow>
                    (case updateUser_of d of
                       None \<Rightarrow>
                         Response 500 (ErrorEnvelope ''Failed to update patient demographics'')
                     | Some payload \<Rightarrow>
                         if (case messages payload of None \<Rightarrow> False | Some ms \<Rightarrow> length ms > 0)
                         then Response 400
                                (ErrorEnvelope (''Validation errors: '' @
                                   validationErrors (the (messages payload))))
                         else
                           (case user payload of
                              None \<Rightarrow>
                                Response 500
                                  (ErrorEnvelope ''Failed to update patient demographics'')
                            | Some u \<Rightarrow> Response 200 (PatientFields (patientData u))))))"

section \<open>The server-side service (\<open>HealthieServerService\<close> in \<open>lib/healthie-service.ts\<close>)\<close>

record HealthieServerService =
  baseUrl :: string
  apiKey :: string

text \<open>The constructor, behind \<open>getHealthieServerService()\<close>: it throws without a key.\<close>

definition getHealthieServerService :: "Env \<Rightarrow> exn + HealthieServerService" where
  "getHealthieServerService env =
     (let url = (if falsy (HEALTHIE_API_URL env) then ''https://staging-api.gethealthie.com/graphql''
                 else the (HEALTHIE_API_URL env));
          key = (if falsy (HEALTHIE_API_KEY env) then [] else the (HEALTHIE_API_KEY env))
      in if key = [] then Inl ApiKeyRequired else Inr \<lparr>baseUrl = url, apiKey = key\<rparr>)"

text \<open>
  The private \<open>makeGraphQLRequest\<close>: a request that is not answered within 30 seconds
  is aborted and reported as a timeout.
\<close>

definition server_makeGraphQLRequest ::
  "HealthieServerService \<Rightarrow> remote \<Rightarrow> Operation \<Rightarrow> RemoteRequest list \<times> (exn + GqlData option)" where
  "server_makeGraphQLRequest this remote op =
     (let req = RemoteRequest (baseUrl this) (''Bearer '' @ apiKey this) op
      in ([req],
          case remote req of
            FetchRejected \<Rightarrow> Inl FetchFailed
          | NoReply \<Rightarrow> Inl RequestTimeout
          | HttpReply st txt result \<Rightarrow>
              if \<not> ok st then Inl (HealthieApiError st [])
              else (case result of
                      None \<Rightarrow> Inl BadJson
                    | Some r \<Rightarrow>
                        (case errors r of
                           Some e \<Rightarrow> Inl (GraphQLErrors e)
                         | None \<Rightarrow> Inr (data r)))))"

definition server_getFormsForPatient :: "HealthieServerService \<Rightarrow> string \<Rightarrow> FormTask list" where
  "server_getFormsForPatient this pid = []"

definition server_getUpcomingAppointments :: "HealthieServerService \<Rightarrow> string \<Rightarrow> Appointment list" where
  "server_getUpcomingAppointments this pid = []"

definition server_findPatientByEmail ::
  "HealthieServerService \<Rightarrow> remote \<Rightarrow> string \<Rightarrow> RemoteRequest list \<times> (exn + Patient option)" where
  "server_findPatientByEmail this remote email =
     (let normalized = normalizedEmail email;
          (sent, res) = server_makeGraphQLRequest this remote (FindUserByEmail normalized)
      in (sent,
          case res of
            Inl err \<Rightarrow> Inl err
          | Inr d \<Rightarrow>
              (case users_of d of
                 None \<Rightarrow> Inr None
               | Some us \<Rightarrow>
                   if length us > 0 then
                     (case find_email normalized us of
                        Inl err \<Rightarrow> Inl err
                      | Inr (Some u) \<Rightarrow> Inr (Some (patientData u))
                      | Inr None \<Rightarrow> Inr None)
                   else Inr None)))"

section \<open>The forms and appointments routes\<close>

definition forms_GET :: "Env \<Rightarrow> string option \<Rightarrow> ApiResponse" where
  "forms_GET env patientId =
     (if falsy patientId then Response 400 (ErrorEnvelope ''Patient ID parameter is required'')
      else case getHealthieServerService env of
             Inl err \<Rightarrow> Response 500 (ErrorEnvelope ''Failed to fetch forms'')
           | Inr healthieService \<Rightarrow>
               Response 200
                 (FormsEnvelope (Some (server_getFormsForPatient healthieService (the patientId)))))"

definition appointments_GET :: "Env \<Rightarrow> string option \<Rightarrow> ApiResponse" where
  "appointments_GET env patientId =
     (if falsy patientId then Response 400 (ErrorEnvelope ''Patient ID parameter is required'')
      else case getHealthieServerService env of
             Inl err \<Rightarrow> Response 500 (ErrorEnvelope ''Failed to fetch appointments'')
           | Inr healthieService \<Rightarrow>
               Response 200
                 (AppointmentsEnvelope
                    (Some (server_getUpcomingAppointments healthieService (the patientId)))))"

section \<open>The client-side service (\<open>HealthieService\<close> in \<open>lib/healthie-service.ts\<close>)\<close>

text \<open>
  The browser's \<open>fetch\<close> against the portal's own routes: it rejects, or a response
  arrives with its status and, when it is JSON, its parsed body. An asynchronous method
  is its outcome: \<open>Inl\<close> a rejection, \<open>Inr\<close> the value it resolves to.
\<close>

datatype ClientRequest =
    GetPatient string  \<comment> \<open>\<open>/api/healthie/patient?email=...\<close>\<close>
  | PostPatient CreateBody
  | PatchPatient UpdateBody
  | GetForms string  \<comment> \<open>\<open>/api/healthie/forms?patientId=...\<close>\<close>
  | GetAppointments string  \<comment> \<open>\<open>/api/healthie/appointments?patientId=...\<close>\<close>

datatype FetchOutcome = Rejected | Fetched nat "ApiBody option"

type_synonym fetch = "ClientRequest \<Rightarrow> FetchOutcome"

text \<open>\<open>data.patient\<close>, \<open>data.id\<close>, \<open>data.forms || []\<close>, \<open>data.appointments || []\<close>\<close>

definition patient_of :: "ApiBody \<Rightarrow> Patient option" where
  "patient_of d = (case d of PatientEnvelope p \<Rightarrow> p | _ \<Rightarrow> None)"

definition id_of :: "ApiBody \<Rightarrow> string option" where
  "id_of d = (case d of PatientFields p \<Rightarrow> Some (pat_id p) | _ \<Rightarrow> None)"

definition forms_or_empty :: "ApiBody \<Rightarrow> FormTask list" where
  "forms_or_empty d = (case d of FormsEnvelope (Some fs) \<Rightarrow> fs | _ \<Rightarrow> [])"

definition appointments_or_empty :: "ApiBody \<Rightarrow> Appointment list" where
  "appointments_or_empty d = (case d of AppointmentsEnvelope (Some as) \<Rightarrow> as | _ \<Rightarrow> [])"

definition findPatientByEmail :: "fetch \<Rightarrow> string \<Rightarrow> exn + Patient option" where
  "findPatientByEmail fetch email =
     (let normalized = normalizedEmail email;
          attempt =
            (case fetch (GetPatient normalized) of
               Rejected \<Rightarrow> Inl FetchFailed
             | Fetched st body \<Rightarrow>
                 if ok st then
                   (case body of None \<Rightarrow> Inl BadJson | Some d \<Rightarrow> Inr (patient_of d))
                 else Inr None)
      in case attempt of Inl err \<Rightarrow> Inr None | Inr v \<Rightarrow> Inr v)"

definition createPatient :: "fetch \<Rightarrow> CreateBody \<Rightarrow> exn + string option" where
  "createPatient fetch input =
     (let attempt =
            (case fetch (PostPatient input) of
               Rejected \<Rightarrow> Inl FetchFailed
             | Fetched st body \<Rightarrow>
                 if \<not> ok st then Inl (FailedToCreatePatient st)
                 else (case body of None \<Rightarrow> Inl BadJson | Some d \<Rightarrow> Inr (id_of d)))
      in case attempt of Inl err \<Rightarrow> Inl err | Inr v \<Rightarrow> Inr v)"

definition updatePatientDemographics :: "fetch \<Rightarrow> string \<Rightarrow> Demographics \<Rightarrow> exn + unit" where
  "updatePatientDemographics fetch pid d =
     (let attempt =
            (case fetch (PatchPatient \<lparr>ub_id = Some pid, ub_demographics = Some d\<rparr>) of
               Rejected \<Rightarrow> Inl FetchFailed
             | Fetched st body \<Rightarrow>
                 if \<not> ok st then Inl (FailedToUpdateDemographics st) else Inr ())
      in case attempt of Inl err \<Rightarrow> Inl err | Inr v \<Rightarrow> Inr v)"

definition getFormsForPatient :: "fetch \<Rightarrow> string \<Rightarrow> exn + FormTask list" where
  "getFormsForPatient fetch pid =
     (let attempt =
            (case fetch (GetForms pid) of
               Rejected \<Rightarrow> Inl FetchFailed
             | Fetched st body \<Rightarrow>
                 if ok st then
                   (case body of None \<Rightarrow> Inl BadJson | Some d \<Rightarrow> Inr (forms_or_empty d))
                 else Inr [])
      in case attempt of Inl err \<Rightarrow> Inr [] | Inr v \<Rightarrow> Inr v)"

definition getUpcomingAppointments :: "fetch \<Rightarrow> string \<Rightarrow> exn + Appointment list" where
  "getUpcomingAppointments fetch pid =
     (let attempt =
            (case fetch (GetAppointments pid) of
               Rejected \<Rightarrow> Inl FetchFailed
             | Fetched st body \<Rightarrow>
                 if ok st then
                   (case body of None \<Rightarrow> Inl BadJson | Some d \<Rightarrow> Inr (appointments_or_empty d))
                 else Inr [])
      in case attempt of Inl err \<Rightarrow> Inr [] | Inr v \<Rightarrow> Inr v)"

section \<open>The session context (\<open>contexts/auth-context.tsx\<close>)\<close>

record AuthContextType =
  ctx_session :: "Session option"
  isAuthenticated :: bool
  ctx_email :: "string option"

text \<open>
  The value the provider hands to its consumers, from the state \<open>session\<close> (the
  fields \<open>session\<close> and \<open>email\<close> of the context are \<open>ctx_session\<close> and \<open>ctx_email\<close>):
  \<^verbatim>\<open>isAuthenticated: !!session\<close>, \<^verbatim>\<open>email: session?.email || null\<close>.
\<close>

definition AuthProvider :: "Session option \<Rightarrow> AuthContextType" where
  "AuthProvider s =
     \<lparr>ctx_session = s,
      isAuthenticated = (case s of None \<Rightarrow> False | Some v \<Rightarrow> True),
      ctx_email = (case s of None \<Rightarrow> None
               | Some v \<Rightarrow> if ses_email v = [] then None else Some (ses_email v))\<rparr>"

fun decimal :: "nat \<Rightarrow> string" where
  "decimal n = (if n < 10 then [char_of (48 + n)] else decimal (n div 10) @ [char_of (48 + n mod 10)])"

declare decimal.simps [simp del]

text \<open>
  \<open>signIn\<close> and \<open>signOut\<close> give the new state. \<open>now\<close> is \<open>Date.now()\<close> and \<open>rnd\<close> the
  nine characters drawn from \<open>Math.random()\<close>; the password is not looked at.
\<close>

definition signIn :: "nat \<Rightarrow> string \<Rightarrow> string \<Rightarrow> string \<Rightarrow> Session option" where
  "signIn now rnd email password =
     Some \<lparr>sessionId = ''session-'' @ decimal now @ ''-'' @ rnd,
           ses_email = trim (toLowerCase email),
           expiresAt = int now + 24 * 60 * 60 * 1000\<rparr>"

definition signOut :: "Session option" where
  "signOut = None"

section \<open>The demographics page (\<open>app/intake/demographics/page.tsx\<close>)\<close>

record DemographicsFormData =
  fd_firstName :: string
  fd_lastName :: string
  fd_dob :: string
  fd_sexAtBirth :: string
  fd_insuranceProvider :: string
  fd_insuranceMemberId :: string
  fd_phone :: "string option"

text \<open>
  The page's state, and the paths given to \<open>router.push\<close>. The \<open>k\<close>-th fetch of a
  handler is answered by \<open>fetch k\<close>: a later lookup need not see what an earlier one saw.
\<close>

record PageState =
  isLoading :: bool
  error :: "string option"
  pushed :: "string list"

definition onSubmit :: "(nat \<Rightarrow> fetch) \<Rightarrow> string option \<Rightarrow> DemographicsFormData \<Rightarrow> PageState \<Rightarrow> PageState" where
  "onSubmit fetch email d st =
     (if falsy email
      then st\<lparr>error := Some ''No email found in session. Please sign in again.''\<rparr>
      else
        let attempt =
              (case findPatientByEmail (fetch 0) (the email) of
                 Inl err \<Rightarrow> Inl err
               | Inr found \<Rightarrow>
                   (case (case found of
                            Some p \<Rightarrow> Inr (1, Some p)
                          | None \<Rightarrow>
                              (case createPatient (fetch 1)
                                      \<lparr>cb_email = email, cb_password = Some ''temp-password'',
                                       cb_firstName = Some (fd_firstName d),
                                       cb_lastName = Some (fd_lastName d),
                                       cb_phone = fd_phone d\<rparr> of
                                 Inl err \<Rightarrow> Inl err
                               | Inr created \<Rightarrow>
                                   (case findPatientByEmail (fetch 2) (the email) of
                                      Inl err \<Rightarrow> Inl err
                                    | Inr fetched \<Rightarrow> Inr (3, fetched)))) of
                      Inl err \<Rightarrow> Inl err
                    | Inr (k, None) \<Rightarrow> Inl FailedToCreateOrFind
                    | Inr (k, Some patient) \<Rightarrow>
                        updatePatientDemographics (fetch k) (pat_id patient)
                          \<lparr>dem_dob = Some (fd_dob d), dem_sexAtBirth = Some (fd_sexAtBirth d),
                           dem_insurance =
                             Some \<lparr>provider = fd_insuranceProvider d,
                                   memberId = fd_insuranceMemberId d\<rparr>\<rparr>))
        in case attempt of
             Inl err \<Rightarrow>
               st\<lparr>isLoading := False,
                  error := Some ''An error occurred while saving your information. Please try again.''\<rparr>
           | Inr finished \<Rightarrow>
               st\<lparr>isLoading := False, error := None, pushed := pushed st @ [''/hub'']\<rparr>)"

section \<open>The hub page (\<open>app/hub/page.tsx\<close>)\<close>

record HubState =
  hub_patient :: "Patient option"
  hub_forms :: "FormTask list"
  hub_appointments :: "Appointment list"
  hub_isLoading :: bool
  hub_error :: "string option"
  hub_pushed :: "string list"

definition loadPatientData :: "(nat \<Rightarrow> fetch) \<Rightarrow> string option \<Rightarrow> HubState \<Rightarrow> HubState" where
  "loadPatientData fetch email st =
     (if falsy email then st\<lparr>hub_pushed := hub_pushed st @ [''/login'']\<rparr>
      else
        let failed = (\<lambda>s. s\<lparr>hub_isLoading := False,
                      hub_error := Some ''Failed to load your information. Please try again.''\<rparr>)
        in case findPatientByEmail (fetch 0) (the email) of
             Inl err \<Rightarrow> failed st
           | Inr None \<Rightarrow>
               st\<lparr>hub_isLoading := False, hub_error := None,
                  hub_pushed := hub_pushed st @ [''/intake/demographics'']\<rparr>
           | Inr (Some found) \<Rightarrow>
               (case getFormsForPatient (fetch 1) (pat_id found) of
                  Inl err \<Rightarrow> failed (st\<lparr>hub_patient := Some found\<rparr>)
                | Inr formsData \<Rightarrow>
                    (case getUpcomingAppointments (fetch 2) (pat_id found) of
                       Inl err \<Rightarrow> failed (st\<lparr>hub_patient := Some found\<rparr>)
                     | Inr appointmentsData \<Rightarrow>
                         st\<lparr>hub_patient := Some found, hub_forms := formsData,
                            hub_appointments := appointmentsData, hub_isLoading := False,
                            hub_error := None\<rparr>)))"

text \<open>
  \<open>getNextAppointment\<close>. \<open>parse\<close> is \<open>new Date(s).getTime()\<close>, \<open>None\<close> for an invalid
  date (NaN, which no comparison holds of); \<open>now\<close> is the time of the call.
  \<open>Array.prototype.sort\<close> is stable, as \<open>sort_key\<close> is; the filter leaves no
  appointment with an invalid date for the comparator to meet.
\<close>

definition isUpcoming :: "(string \<Rightarrow> int option) \<Rightarrow> int \<Rightarrow> Appointment \<Rightarrow> bool" where
  "isUpcoming parse now apt = (case parse (startsAt apt) of None \<Rightarrow> False | Some t \<Rightarrow> t > now)"

definition getTime :: "(string \<Rightarrow> int option) \<Rightarrow> Appointment \<Rightarrow> int" where
  "getTime parse apt = (case parse (startsAt apt) of None \<Rightarrow> 0 | Some t \<Rightarrow> t)"

definition getNextAppointment ::
  "(string \<Rightarrow> int option) \<Rightarrow> int \<Rightarrow> Appointment list \<Rightarrow> Appointment option" where
  "getNextAppointment parse now appointments =
     (if length appointments = 0 then None
      else
        let upcoming = sort_key (getTime parse) (filter (isUpcoming parse now) appointments)
        in case upcoming of [] \<Rightarrow> None | a # rest \<Rightarrow> Some a)"

section \<open>Example inputs\<close>

definition example_env :: Env where
  "example_env = \<lparr>HEALTHIE_API_URL = None, HEALTHIE_API_KEY = Some ''key''\<rparr>"

definition jane :: RemoteUser where
  "jane = \<lparr>usr_id = ''42'', first_name = ''Jane'', last_name = ''Doe'',
            usr_email = Some ''Existing.Patient@example.com'', usr_dob = None, sex = None,
            phone_number = None\<rparr>"

definition john :: RemoteUser where
  "john = \<lparr>usr_id = ''7'', first_name = ''John'', last_name = ''Roe'',
            usr_email = Some ''patient@example.com'', usr_dob = None, sex = None,
            phone_number = None\<rparr>"

text \<open>A remote user whose email is null, and one whose email is the empty string.\<close>

definition anonymous :: RemoteUser where
  "anonymous = \<lparr>usr_id = ''5'', first_name = ''No'', last_name = ''Email'',
                 usr_email = None, usr_dob = None, sex = None, phone_number = None\<rparr>"


text \<open>A remote that answers every request with status 200 and the given data.\<close>

definition replying :: "GqlData \<Rightarrow> remote" where
  "replying d = (\<lambda>req. HttpReply 200 [] (Some (GqlResult None (Some d))))"

definition no_data :: GqlData where
  "no_data = \<lparr>users = None, createClient = None, updateUser = None\<rparr>"

text \<open>A mutation payload with a user record and two validation messages.\<close>

definition partial_payload :: MutationPayload where
  "partial_payload =
     \<lparr>user = Some jane,
      messages = Some [\<lparr>msg_field = Some ''email'', msg_message = Some ''is taken''\<rparr>,
                       \<lparr>msg_field = None, msg_message = Some ''try again''\<rparr>]\<rparr>"

definition example_create :: CreateBody where
  "example_create =
     \<lparr>cb_email = Some ''Existing.Patient@example.com'', cb_password = Some ''temp-password'',
      cb_firstName = Some ''Jane'', cb_lastName = Some ''Doe'', cb_phone = None\<rparr>"

definition example_update :: UpdateBody where
  "example_update =
     \<lparr>ub_id = Some ''42'',
      ub_demographics = Some \<lparr>dem_dob = Some ''1990-01-01'', dem_sexAtBirth = Some ''female'',
                              dem_insurance = None\<rparr>\<rparr>"

definition rejecting :: remote where
  "rejecting =
     replying (no_data\<lparr>createClient := Some partial_payload, updateUser := Some partial_payload\<rparr>)"

text \<open>An environment without the key, and a remote whose search finds two users.\<close>

definition keyless_env :: Env where
  "keyless_env = \<lparr>HEALTHIE_API_URL = Some ''https://staging-api.gethealthie.com/graphql'',
                   HEALTHIE_API_KEY = None\<rparr>"

definition found_jane :: remote where
  "found_jane = replying (no_data\<lparr>users := Some [john, jane]\<rparr>)"

text \<open>Four appointments: one in 2031, one without a date, one in 2020, one in 2030.\<close>

definition example_parse :: "string \<Rightarrow> int option" where
  "example_parse s =
     (if s = ''2020-01-01T00:00:00.000Z'' then Some 1577836800000
      else if s = ''2030-01-01T00:00:00.000Z'' then Some 1893456000000
      else if s = ''2031-01-01T00:00:00.000Z'' then Some 1924992000000
      else None)"

definition example_appointments :: "Appointment list" where
  "example_appointments =
     [\<lparr>apt_id = ''a'', startsAt = ''2031-01-01T00:00:00.000Z''\<rparr>,
      \<lparr>apt_id = ''b'', startsAt = ''soon''\<rparr>,
      \<lparr>apt_id = ''c'', startsAt = ''2020-01-01T00:00:00.000Z''\<rparr>,
      \<lparr>apt_id = ''d'', startsAt = ''2030-01-01T00:00:00.000Z''\<rparr>]"

text \<open>
  The service the constructor builds in \<open>example_env\<close>, and two searches that return a
  user without an email: before the user the lookup is for, and alone.
\<close>

definition example_service :: HealthieServerService where
  "example_service = \<lparr>baseUrl = ''https://staging-api.gethealthie.com/graphql'', apiKey = ''key''\<rparr>"

definition null_email_first :: remote where
  "null_email_first = replying (no_data\<lparr>users := Some [anonymous, jane]\<rparr>)"

definition null_email_only :: remote where
  "null_email_only = replying (no_data\<lparr>users := Some [anonymous]\<rparr>)"



section \<open>The routes as the browser reaches them\<close>

text \<open>
  Next.js serves \<open>/api/healthie/patient\<close>, \<open>/api/healthie/forms\<close> and
  \<open>/api/healthie/appointments\<close> with the handlers above: a fetch of the client-side
  service that reaches the portal is answered by the handler's response. The patient
  URL carries the email through \<open>encodeURIComponent\<close>; the forms and appointments URLs
  interpolate the id as it is, so an id is taken to hold no character a URL reserves.
\<close>

definition portal :: "Env \<Rightarrow> remote \<Rightarrow> fetch" where
  "portal env remote req =
     (let r = (case req of
                 GetPatient e \<Rightarrow> snd (patient_GET env remote (Some e))
               | PostPatient b \<Rightarrow> snd (patient_POST env remote (Some b))
               | PatchPatient b \<Rightarrow> snd (patient_PATCH env remote (Some b))
               | GetForms p \<Rightarrow> forms_GET env (Some p)
               | GetAppointments p \<Rightarrow> appointments_GET env (Some p))
      in Fetched (status_of r) (Some (body_of r)))"

section \<open>Example inputs: a remote whose index lags, remotes that fail\<close>

definition new_user :: RemoteUser where
  "new_user = \<lparr>usr_id = ''99'', first_name = ''New'', last_name = ''Patient'',
                usr_email = Some ''new.patient@example.com'', usr_dob = None, sex = None,
                phone_number = None\<rparr>"

text \<open>
  A remote that creates and updates the record, and whose keyword search does not find
  it yet.
\<close>

definition lagging :: remote where
  "lagging req =
     (case operation req of
        FindUserByEmail e \<Rightarrow> replying (no_data\<lparr>users := Some []\<rparr>) req
      | CreateClient i \<Rightarrow>
          replying (no_data\<lparr>createClient := Some \<lparr>user = Some new_user, messages = None\<rparr>\<rparr>) req
      | UpdateUser i \<Rightarrow>
          replying (no_data\<lparr>updateUser := Some \<lparr>user = Some new_user, messages = None\<rparr>\<rparr>) req)"

definition example_form :: DemographicsFormData where
  "example_form =
     \<lparr>fd_firstName = ''New'', fd_lastName = ''Patient'', fd_dob = ''1990-01-01'',
      fd_sexAtBirth = ''female'', fd_insuranceProvider = ''Acme'',
      fd_insuranceMemberId = ''M-1'', fd_phone = None\<rparr>"

definition idle :: PageState where
  "idle = \<lparr>isLoading = False, error = None, pushed = []\<rparr>"

definition unreachable :: remote where
  "unreachable = (\<lambda>req. FetchRejected)"

definition graphql_failure :: remote where
  "graphql_failure = (\<lambda>req. HttpReply 200 [] (Some (GqlResult (Some ''[internal error]'') None)))"

definition empty_search :: remote where
  "empty_search = replying (no_data\<lparr>users := Some []\<rparr>)"

text \<open>The browser is offline: every fetch rejects.\<close>

definition offline :: fetch where
  "offline = (\<lambda>req. Rejected)"

text \<open>The same answers at every fetch of a handler.\<close>

definition steady :: "fetch \<Rightarrow> nat \<Rightarrow> fetch" where
  "steady f k = f"

definition loading :: HubState where
  "loading = \<lparr>hub_patient = None, hub_forms = [], hub_appointments = [],
              hub_isLoading = True, hub_error = None, hub_pushed = []\<rparr>"

definition stale_session :: Session where
  "stale_session = \<lparr>sessionId = ''session-0-abc123xyz'', ses_email = ''jane@example.com'',
                     expiresAt = 86400000\<rparr>"

section \<open>Properties of the normalization\<close>

lemma of_char_toLowerCase_char:
  "(of_char (toLowerCase_char c) :: nat) =
     (let n = (of_char c :: nat)
      in if (65 \<le> n \<and> n \<le> 90) \<or> (192 \<le> n \<and> n \<le> 222 \<and> n \<noteq> 215)
         then n + 32 else n)"
  by (auto simp: toLowerCase_char_def Let_def)

lemma toLowerCase_char_idem:
  "toLowerCase_char (toLowerCase_char c) = toLowerCase_char c"
  using of_char_toLowerCase_char [of c]
  by (subst (1) toLowerCase_char_def) (auto simp: Let_def)

lemma isWhiteSpace_toLowerCase_char:
  "isWhiteSpace (toLowerCase_char c) = isWhiteSpace c"
  unfolding isWhiteSpace_def of_char_toLowerCase_char by (auto simp: Let_def)

lemma toLowerCase_idem: "toLowerCase (toLowerCase s) = toLowerCase s"
  by (simp add: toLowerCase_def toLowerCase_char_idem)

lemma toLowerCase_trim: "toLowerCase (trim s) = trim (toLowerCase s)"
  by (simp add: toLowerCase_def trim_def rev_map dropWhile_map comp_def
      isWhiteSpace_toLowerCase_char)

lemma dropWhile_front_of_stripped_end:
  assumes front: "dropWhile P xs = xs"
  shows "dropWhile P (rev (dropWhile Q (rev xs))) = rev (dropWhile Q (rev xs))"
proof (cases "rev (dropWhile Q (rev xs))")
  case Nil
  show ?thesis unfolding Nil by simp
next
  case (Cons y ys)
  have "xs = rev (dropWhile Q (rev xs)) @ rev (takeWhile Q (rev xs))"
    by (metis rev_append rev_rev_ident takeWhile_dropWhile_id)
  with Cons have "xs = y # (ys @ rev (takeWhile Q (rev xs)))" by simp
  then have "hd xs = y" and "xs \<noteq> []" by (metis list.sel(1), blast)
  with front have "\<not> P y" by (metis hd_dropWhile)
  with Cons show ?thesis by simp
qed

lemma trim_idem: "trim (trim s) = trim s"
proof -
  have front: "dropWhile isWhiteSpace (trim s) = trim s"
    unfolding trim_def by (rule dropWhile_front_of_stripped_end) simp
  show ?thesis
    by (subst (1) trim_def) (simp add: front, simp add: trim_def)
qed

lemma normalizedEmail_idem: "normalizedEmail (normalizedEmail x) = normalizedEmail x"
  by (simp add: normalizedEmail_def toLowerCase_trim toLowerCase_idem trim_idem)

lemma toLowerCase_normalizedEmail: "toLowerCase (normalizedEmail x) = normalizedEmail x"
  by (simp add: normalizedEmail_def toLowerCase_trim toLowerCase_idem)

text \<open>
  Claim C6. The normalization applied to an email before a lookup (lower-case, then
  trim) is idempotent, and it identifies case variants: \<open>Foo@Bar.com\<close> and
  \<open>foo@bar.com\<close> have the same normal form.
\<close>

theorem normalizedEmail_idempotent_and_case_blind:
  "(\<forall>x. normalizedEmail (normalizedEmail x) = normalizedEmail x) \<and>
   normalizedEmail ''Foo@Bar.com'' = normalizedEmail ''foo@bar.com''"
proof
  show "\<forall>x. normalizedEmail (normalizedEmail x) = normalizedEmail x"
    by (simp add: normalizedEmail_def toLowerCase_trim toLowerCase_idem trim_idem)
  show "normalizedEmail ''Foo@Bar.com'' = normalizedEmail ''foo@bar.com''"
    by code_simp
qed

section \<open>The lookup\<close>

lemma find_email_no_match:
  "\<forall>u\<in>set cs. \<exists>e. usr_email u = Some e \<and> toLowerCase e \<noteq> n \<Longrightarrow> find_email n cs = Inr None"
  by (induction cs) auto

lemma find_email_single_match:
  assumes "\<forall>c\<in>set cs. usr_email c \<noteq> None"
    and "filter (\<lambda>c. map_option toLowerCase (usr_email c) = Some n) cs = [u]"
  shows "find_email n cs = Inr (Some u)"
  using assms
proof (induction cs)
  case Nil
  then show ?case by simp
next
  case (Cons c cs)
  then obtain e where e: "usr_email c = Some e" by auto
  show ?case
  proof (cases "toLowerCase e = n")
    case True
    with Cons.prems e show ?thesis by simp
  next
    case False
    with Cons e show ?thesis by simp
  qed
qed


lemma makeGraphQLRequest_data:
  assumes "route_API_KEY env \<noteq> []" and "ok st"
    and "remote (RemoteRequest (route_API_URL env) (''Basic '' @ route_API_KEY env) op)
           = HttpReply st txt (Some (GqlResult None d))"
  shows "makeGraphQLRequest env remote op =
           ([RemoteRequest (route_API_URL env) (''Basic '' @ route_API_KEY env) op], Inr d)"
  using assms by (simp add: makeGraphQLRequest_def Let_def)

lemma server_makeGraphQLRequest_data:
  assumes "ok st"
    and "remote (RemoteRequest (baseUrl this) (''Bearer '' @ apiKey this) op)
           = HttpReply st txt (Some (GqlResult None d))"
  shows "server_makeGraphQLRequest this remote op =
           ([RemoteRequest (baseUrl this) (''Bearer '' @ apiKey this) op], Inr d)"
  using assms by (simp add: server_makeGraphQLRequest_def Let_def)

text \<open>
  What the lookup does when every candidate of the list carries an email: null, not an
  error, when no candidate's email equals the normalized input under case-insensitive
  comparison, and the matching record in the \<open>Patient\<close> shape when exactly one does.
\<close>

lemma lookup_when_every_candidate_has_an_email:
  assumes reply: "\<And>req. operation req = FindUserByEmail (normalizedEmail e) \<Longrightarrow>
                    remote req = HttpReply st txt (Some (GqlResult None (Some d)))"
    and st: "ok st"
    and cands: "users d = Some candidates"
    and emails: "\<forall>c\<in>set candidates. usr_email c \<noteq> None"
    and key: "route_API_KEY env \<noteq> []"
    and e: "e \<noteq> []"
  shows "((\<forall>u\<in>set candidates.
             map_option toLowerCase (usr_email u) \<noteq> Some (toLowerCase (normalizedEmail e))) \<longrightarrow>
            snd (patient_GET env remote (Some e)) = Response 200 (PatientEnvelope None) \<and>
            snd (server_findPatientByEmail this remote e) = Inr None) \<and>
         (\<forall>u. filter (\<lambda>c. map_option toLowerCase (usr_email c) =
                           Some (toLowerCase (normalizedEmail e))) candidates = [u] \<longrightarrow>
            snd (patient_GET env remote (Some e)) =
              Response 200 (PatientEnvelope (Some
                \<lparr>pat_id = usr_id u, firstName = first_name u, lastName = last_name u,
                 pat_email = usr_email u, pat_dob = usr_dob u, sexAtBirth = sex u,
                 insurance = None, phone = phone_number u\<rparr>)) \<and>
            snd (server_findPatientByEmail this remote e) =
              Inr (Some
                \<lparr>pat_id = usr_id u, firstName = first_name u, lastName = last_name u,
                 pat_email = usr_email u, pat_dob = usr_dob u, sexAtBirth = sex u,
                 insurance = None, phone = phone_number u\<rparr>))"
proof -
  let ?n = "normalizedEmail e"
  have route: "makeGraphQLRequest env remote (FindUserByEmail ?n) =
      ([RemoteRequest (route_API_URL env) (''Basic '' @ route_API_KEY env) (FindUserByEmail ?n)],
       Inr (Some d))"
    by (rule makeGraphQLRequest_data [OF key st]) (simp add: reply)
  have server: "server_makeGraphQLRequest this remote (FindUserByEmail ?n) =
      ([RemoteRequest (baseUrl this) (''Bearer '' @ apiKey this) (FindUserByEmail ?n)],
       Inr (Some d))"
    by (rule server_makeGraphQLRequest_data [OF st]) (simp add: reply)
  have get: "snd (patient_GET env remote (Some e)) =
      (case find_email ?n candidates of
         Inl err \<Rightarrow> Response 500 (ErrorEnvelope ''Failed to find patient'')
       | Inr (Some u) \<Rightarrow> Response 200 (PatientEnvelope (Some (patientData u)))
       | Inr None \<Rightarrow> Response 200 (PatientEnvelope None))"
    using e by (cases candidates)
      (simp_all add: patient_GET_def falsy_def Let_def route users_of_def cands)
  have srv: "snd (server_findPatientByEmail this remote e) =
      (case find_email ?n candidates of
         Inl err \<Rightarrow> Inl err
       | Inr (Some u) \<Rightarrow> Inr (Some (patientData u))
       | Inr None \<Rightarrow> Inr None)"
    by (cases candidates)
      (simp_all add: server_findPatientByEmail_def Let_def server users_of_def cands)
  have none: "find_email ?n candidates = Inr None"
    if "\<forall>u\<in>set candidates. map_option toLowerCase (usr_email u) \<noteq> Some (toLowerCase ?n)"
    using that emails by (intro find_email_no_match) (auto simp: toLowerCase_normalizedEmail)
  have one: "find_email ?n candidates = Inr (Some u)"
    if "filter (\<lambda>c. map_option toLowerCase (usr_email c) = Some (toLowerCase ?n)) candidates = [u]"
    for u
    using that emails by (intro find_email_single_match) (simp_all add: toLowerCase_normalizedEmail)
  show ?thesis
    by (simp add: get srv none one patientData_def)
qed

lemma example_key: "route_API_KEY example_env = ''key''"
  by (simp add: route_API_KEY_def example_env_def falsy_def)

lemma example_url: "route_API_URL example_env = ''https://api.gethealthie.com/graphql''"
  by (simp add: route_API_URL_def example_env_def falsy_def)

lemma example_service: "getHealthieServerService example_env = Inr example_service"
  by (simp add: getHealthieServerService_def example_env_def example_service_def falsy_def)

lemma normalized_existing:
  "normalizedEmail ''existing.patient@example.com'' = ''existing.patient@example.com''"
  by code_simp

lemma normalized_new: "normalizedEmail ''new.patient@example.com'' = ''new.patient@example.com''"
  by code_simp

lemma lower_jane: "toLowerCase ''Existing.Patient@example.com'' = ''existing.patient@example.com''"
  by code_simp

text \<open>
  Claim C3 says that, for every candidate list the remote keyword search returns, the
  lookup answers null, not an error, when no candidate's email equals the normalized
  input under case-insensitive comparison, and the single matching record when exactly
  one does. A candidate whose email is null breaks both halves: the comparison calls
  \<open>toLowerCase\<close> on the null and throws, so with one matching candidate behind such a
  record, and with such a record alone, the route's \<open>GET\<close> answers 500 and the
  server-side \<open>findPatientByEmail\<close> rejects.
\<close>

theorem lookup_fails_on_candidate_without_email:
  "filter (\<lambda>c. map_option toLowerCase (usr_email c) = Some ''existing.patient@example.com'')
     [anonymous, jane] = [jane] \<and>
   snd (patient_GET example_env null_email_first (Some ''existing.patient@example.com'')) =
     Response 500 (ErrorEnvelope ''Failed to find patient'') \<and>
   snd (server_findPatientByEmail example_service null_email_first
          ''existing.patient@example.com'') = Inl TypeError \<and>
   filter (\<lambda>c. map_option toLowerCase (usr_email c) = Some ''new.patient@example.com'')
     [anonymous] = [] \<and>
   snd (patient_GET example_env null_email_only (Some ''new.patient@example.com'')) =
     Response 500 (ErrorEnvelope ''Failed to find patient'') \<and>
   snd (server_findPatientByEmail example_service null_email_only
          ''new.patient@example.com'') = Inl TypeError"
  by (simp add: patient_GET_def server_findPatientByEmail_def falsy_def normalized_existing
      normalized_new makeGraphQLRequest_def server_makeGraphQLRequest_def example_key example_url
      null_email_first_def null_email_only_def replying_def ok_def users_of_def no_data_def
      anonymous_def jane_def lower_jane)

section \<open>Validation messages of the mutations\<close>

lemma makeGraphQLRequest_sent:
  "fst (makeGraphQLRequest env remote op) =
     (if route_API_KEY env = [] then []
      else [RemoteRequest (route_API_URL env) (''Basic '' @ route_API_KEY env) op])"
  by (simp add: makeGraphQLRequest_def Let_def)

lemma patient_POST_validation:
  assumes key: "route_API_KEY env \<noteq> []" and st: "ok st"
    and reply: "\<forall>req\<in>set (fst (patient_POST env remote (Some b))).
                  remote req = HttpReply st txt (Some (GqlResult None (Some d)))"
    and payload: "createClient d = Some payload"
    and ms: "messages payload = Some ms" "ms \<noteq> []"
    and b: "\<not> falsy (cb_email b)" "\<not> falsy (cb_password b)" "\<not> falsy (cb_firstName b)"
      "\<not> falsy (cb_lastName b)"
  shows "snd (patient_POST env remote (Some b)) =
           Response 400 (ErrorEnvelope (''Validation errors: '' @ validationErrors ms))"
proof -
  let ?op = "CreateClient
      \<lparr>cc_email = trim (toLowerCase (the (cb_email b))), cc_first_name = the (cb_firstName b),
       cc_last_name = the (cb_lastName b), cc_phone_number = cb_phone b,
       dont_send_welcome = True, skip_set_password_state = True\<rparr>"
  let ?req = "RemoteRequest (route_API_URL env) (''Basic '' @ route_API_KEY env) ?op"
  have "fst (patient_POST env remote (Some b)) = [?req]"
    using b key by (simp add: patient_POST_def Let_def split_beta makeGraphQLRequest_sent)
  with reply have "remote ?req = HttpReply st txt (Some (GqlResult None (Some d)))" by simp
  from makeGraphQLRequest_data [where remote = remote, OF key st this] show ?thesis
    using b ms payload by (simp add: patient_POST_def Let_def createClient_of_def)
qed

lemma patient_PATCH_validation:
  assumes key: "route_API_KEY env \<noteq> []" and st: "ok st"
    and reply: "\<forall>req\<in>set (fst (patient_PATCH env remote (Some b))).
                  remote req = HttpReply st txt (Some (GqlResult None (Some d)))"
    and payload: "updateUser d = Some payload"
    and ms: "messages payload = Some ms" "ms \<noteq> []"
    and b: "\<not> falsy (ub_id b)" "ub_demographics b \<noteq> None"
  shows "snd (patient_PATCH env remote (Some b)) =
           Response 400 (ErrorEnvelope (''Validation errors: '' @ validationErrors ms))"
proof -
  let ?op = "UpdateUser
      \<lparr>uu_id = the (ub_id b), uu_dob = dem_dob (the (ub_demographics b)),
       uu_sex = dem_sexAtBirth (the (ub_demographics b))\<rparr>"
  let ?req = "RemoteRequest (route_API_URL env) (''Basic '' @ route_API_KEY env) ?op"
  have "fst (patient_PATCH env remote (Some b)) = [?req]"
    using b key by (simp add: patient_PATCH_def Let_def split_beta makeGraphQLRequest_sent)
  with reply have "remote ?req = HttpReply st txt (Some (GqlResult None (Some d)))" by simp
  from makeGraphQLRequest_data [where remote = remote, OF key st this] show ?thesis
    using b ms payload by (simp add: patient_PATCH_def Let_def updateUser_of_def)
qed

lemma join_carries:
  "x \<in> set xs \<Longrightarrow> \<exists>pre post. join sep xs = pre @ x @ post"
proof (induction sep xs rule: join.induct)
  case (1 sep)
  then show ?case by simp
next
  case (2 sep y)
  then show ?case by (metis append_Nil append_Nil2 join.simps(2) empty_iff list.set(1) set_ConsD)
next
  case (3 sep y z zs)
  show ?case
  proof (cases "x = y")
    case True
    then show ?thesis by (metis append_Nil join.simps(3))
  next
    case False
    with 3 obtain pre post where "join sep (z # zs) = pre @ x @ post" by auto
    then have "join sep (y # z # zs) = (y @ sep @ pre) @ x @ post" by simp
    then show ?thesis by blast
  qed
qed

lemma validationErrors_carries:
  assumes "m \<in> set ms"
  shows "\<exists>pre post. validationErrors ms =
           pre @ (template (msg_field m) @ '': '' @ template (msg_message m)) @ post"
  unfolding validationErrors_def
  by (rule join_carries) (use assms in auto)

text \<open>
  Claim C4. Whenever the remote response to a create (\<open>POST\<close>) or to an update of the
  demographics (\<open>PATCH\<close>) carries a non-empty list of validation messages, the operation
  fails with the validation error that carries the field-level messages, whether or not
  a user record is present in the same response: the handler answers status 400, which
  is no success, and each message's \<open>field: message\<close> stands in the error text.
\<close>

theorem validation_messages_fail_the_mutation:
  assumes key: "route_API_KEY env \<noteq> []" and st: "ok st"
    and ms: "messages payload = Some ms" "ms \<noteq> []"
  shows "((\<forall>req\<in>set (fst (patient_POST env remote (Some b))).
              remote req = HttpReply st txt (Some (GqlResult None (Some d)))) \<and>
          createClient d = Some payload \<and> \<not> falsy (cb_email b) \<and> \<not> falsy (cb_password b) \<and>
          \<not> falsy (cb_firstName b) \<and> \<not> falsy (cb_lastName b) \<longrightarrow>
            snd (patient_POST env remote (Some b)) =
              Response 400 (ErrorEnvelope (''Validation errors: '' @ validationErrors ms))) \<and>
         ((\<forall>req\<in>set (fst (patient_PATCH env remote (Some ub))).
              remote req = HttpReply st txt (Some (GqlResult None (Some d)))) \<and>
          updateUser d = Some payload \<and> \<not> falsy (ub_id ub) \<and> ub_demographics ub \<noteq> None \<longrightarrow>
            snd (patient_PATCH env remote (Some ub)) =
              Response 400 (ErrorEnvelope (''Validation errors: '' @ validationErrors ms))) \<and>
         \<not> ok 400 \<and>
         (\<forall>m\<in>set ms. \<exists>pre post. validationErrors ms =
            pre @ (template (msg_field m) @ '': '' @ template (msg_message m)) @ post)"
proof (intro conjI impI ballI)
  assume "(\<forall>req\<in>set (fst (patient_POST env remote (Some b))).
              remote req = HttpReply st txt (Some (GqlResult None (Some d)))) \<and>
          createClient d = Some payload \<and> \<not> falsy (cb_email b) \<and> \<not> falsy (cb_password b) \<and>
          \<not> falsy (cb_firstName b) \<and> \<not> falsy (cb_lastName b)"
  then show "snd (patient_POST env remote (Some b)) =
      Response 400 (ErrorEnvelope (''Validation errors: '' @ validationErrors ms))"
    using patient_POST_validation [OF key st _ _ ms] by blast
next
  assume "(\<forall>req\<in>set (fst (patient_PATCH env remote (Some ub))).
              remote req = HttpReply st txt (Some (GqlResult None (Some d)))) \<and>
          updateUser d = Some payload \<and> \<not> falsy (ub_id ub) \<and> ub_demographics ub \<noteq> None"
  then show "snd (patient_PATCH env remote (Some ub)) =
      Response 400 (ErrorEnvelope (''Validation errors: '' @ validationErrors ms))"
    using patient_PATCH_validation [OF key st _ _ ms] by blast
next
  show "\<not> ok 400" by (simp add: ok_def)
next
  fix m assume "m \<in> set ms"
  then show "\<exists>pre post. validationErrors ms =
      pre @ (template (msg_field m) @ '': '' @ template (msg_message m)) @ post"
    by (rule validationErrors_carries)
qed

theorem validation_messages_fail_the_mutation_witness:
  "user partial_payload \<noteq> None \<and>
   snd (patient_POST example_env rejecting (Some example_create)) =
     Response 400 (ErrorEnvelope ''Validation errors: email: is taken, null: try again'') \<and>
   snd (patient_PATCH example_env rejecting (Some example_update)) =
     Response 400 (ErrorEnvelope ''Validation errors: email: is taken, null: try again'')"
proof -
  let ?d = "no_data\<lparr>createClient := Some partial_payload, updateUser := Some partial_payload\<rparr>"
  let ?ms = "[\<lparr>msg_field = Some ''email'', msg_message = Some ''is taken''\<rparr>,
              \<lparr>msg_field = None, msg_message = Some ''try again''\<rparr>]"
  have key: "route_API_KEY example_env \<noteq> []"
    by (simp add: route_API_KEY_def example_env_def falsy_def)
  have st: "ok 200" by (simp add: ok_def)
  have ms: "messages partial_payload = Some ?ms" "?ms \<noteq> []"
    by (simp_all add: partial_payload_def)
  have rendered: "validationErrors ?ms = ''email: is taken, null: try again''"
    by (simp add: validationErrors_def template_def)
  have reply: "\<And>req. rejecting req = HttpReply 200 [] (Some (GqlResult None (Some ?d)))"
    by (simp add: rejecting_def replying_def)
  have c: "\<not> falsy (cb_email example_create)" "\<not> falsy (cb_password example_create)"
    "\<not> falsy (cb_firstName example_create)" "\<not> falsy (cb_lastName example_create)"
    by (simp_all add: example_create_def falsy_def)
  have u: "\<not> falsy (ub_id example_update)" "ub_demographics example_update \<noteq> None"
    by (simp_all add: example_update_def falsy_def)
  have "user partial_payload \<noteq> None" by (simp add: partial_payload_def)
  then show ?thesis
    using validation_messages_fail_the_mutation
      [OF key st ms, of rejecting example_create "[]" ?d example_update] c u
    by (simp add: rendered reply)
qed

section \<open>What is sent to the remote API\<close>
















text \<open>
  Claim C8. When the API key is absent from the configuration (unset, or empty), a
  remote call fails with the configuration error before any request is sent to the
  remote GraphQL API: \<open>makeGraphQLRequest\<close> throws first, the server-side service
  cannot be constructed, and every handler answers 500 having sent nothing.
\<close>

theorem missing_api_key_is_fatal:
  assumes "falsy (HEALTHIE_API_KEY env)"
  shows "makeGraphQLRequest env remote op = ([], Inl NoApiKey) \<and>
         getHealthieServerService env = Inl ApiKeyRequired \<and>
         fst (patient_GET env remote email) = [] \<and>
         fst (patient_POST env remote body) = [] \<and>
         fst (patient_PATCH env remote ub) = [] \<and>
         (\<not> falsy email \<longrightarrow>
            snd (patient_GET env remote email) =
              Response 500 (ErrorEnvelope ''Failed to find patient'')) \<and>
         (\<forall>b. body = Some b \<and> \<not> falsy (cb_email b) \<and> \<not> falsy (cb_password b) \<and>
              \<not> falsy (cb_firstName b) \<and> \<not> falsy (cb_lastName b) \<longrightarrow>
            snd (patient_POST env remote body) =
              Response 500 (ErrorEnvelope ''Failed to create patient'')) \<and>
         (\<forall>b. ub = Some b \<and> \<not> falsy (ub_id b) \<and> ub_demographics b \<noteq> None \<longrightarrow>
            snd (patient_PATCH env remote ub) =
              Response 500 (ErrorEnvelope ''Failed to update patient demographics'')) \<and>
         (\<not> falsy pid \<longrightarrow>
            forms_GET env pid = Response 500 (ErrorEnvelope ''Failed to fetch forms'') \<and>
            appointments_GET env pid =
              Response 500 (ErrorEnvelope ''Failed to fetch appointments''))"
proof -
  have key: "route_API_KEY env = []" using assms by (simp add: route_API_KEY_def)
  have mk: "\<And>op. makeGraphQLRequest env remote op = ([], Inl NoApiKey)"
    by (simp add: makeGraphQLRequest_def key)
  have srv: "getHealthieServerService env = Inl ApiKeyRequired"
    using assms by (simp add: getHealthieServerService_def)
  show ?thesis
    by (simp add: mk srv patient_GET_def patient_POST_def patient_PATCH_def forms_GET_def
        appointments_GET_def Let_def split: option.split)
qed

theorem missing_api_key_is_fatal_witness:
  "falsy (HEALTHIE_API_KEY keyless_env) \<and>
   makeGraphQLRequest keyless_env found_jane (FindUserByEmail ''existing.patient@example.com'') =
     ([], Inl NoApiKey) \<and>
   patient_GET keyless_env found_jane (Some '' EXISTING.patient@Example.com'') =
     ([], Response 500 (ErrorEnvelope ''Failed to find patient'')) \<and>
   patient_POST keyless_env found_jane (Some example_create) =
     ([], Response 500 (ErrorEnvelope ''Failed to create patient'')) \<and>
   patient_PATCH keyless_env found_jane (Some example_update) =
     ([], Response 500 (ErrorEnvelope ''Failed to update patient demographics'')) \<and>
   forms_GET keyless_env (Some ''42'') = Response 500 (ErrorEnvelope ''Failed to fetch forms'')"
proof -
  have k: "falsy (HEALTHIE_API_KEY keyless_env)" by (simp add: keyless_env_def falsy_def)
  have c: "\<not> falsy (cb_email example_create) \<and> \<not> falsy (cb_password example_create) \<and>
      \<not> falsy (cb_firstName example_create) \<and> \<not> falsy (cb_lastName example_create)"
    by (simp add: example_create_def falsy_def)
  have u: "\<not> falsy (ub_id example_update) \<and> ub_demographics example_update \<noteq> None"
    by (simp add: example_update_def falsy_def)
  have f: "\<not> falsy (Some '' EXISTING.patient@Example.com'')" "\<not> falsy (Some ''42'')"
    by (simp_all add: falsy_def)
  from missing_api_key_is_fatal
    [OF k, of found_jane "FindUserByEmail ''existing.patient@example.com''"
      "Some '' EXISTING.patient@Example.com''" "Some example_create" "Some example_update"
      "Some ''42''"]
  show ?thesis using k c u f by (simp add: prod_eq_iff)
qed

section \<open>The next appointment\<close>

lemma getNextAppointment_upcoming:
  "getNextAppointment parse now apts =
     (case sort_key (getTime parse) (filter (isUpcoming parse now) apts) of
        [] \<Rightarrow> None | a # rest \<Rightarrow> Some a)"
  by (cases apts) (simp_all add: getNextAppointment_def)

lemma getNextAppointment_None_iff:
  "getNextAppointment parse now apts = None \<longleftrightarrow> (\<forall>a\<in>set apts. \<not> isUpcoming parse now a)"
proof -
  let ?up = "sort_key (getTime parse) (filter (isUpcoming parse now) apts)"
  have "getNextAppointment parse now apts = None \<longleftrightarrow> ?up = []"
    by (simp add: getNextAppointment_upcoming split: list.split)
  also have "\<dots> \<longleftrightarrow> filter (isUpcoming parse now) apts = []"
    by (metis set_empty set_sort)
  also have "\<dots> \<longleftrightarrow> (\<forall>a\<in>set apts. \<not> isUpcoming parse now a)"
    by (simp add: filter_empty_conv)
  finally show ?thesis .
qed

lemma getNextAppointment_Some:
  assumes "getNextAppointment parse now apts = Some a"
  shows "a \<in> set apts \<and> isUpcoming parse now a \<and>
         (\<forall>b\<in>set apts. isUpcoming parse now b \<longrightarrow> getTime parse a \<le> getTime parse b)"
proof -
  let ?up = "sort_key (getTime parse) (filter (isUpcoming parse now) apts)"
  from assms obtain rest where up: "?up = a # rest"
    by (auto simp: getNextAppointment_upcoming split: list.splits)
  have "a \<in> set ?up" by (simp add: up)
  then have a: "a \<in> set apts \<and> isUpcoming parse now a" by simp
  have "sorted (map (getTime parse) ?up)" by (rule sorted_sort_key)
  then have least: "\<forall>b\<in>set ?up. getTime parse a \<le> getTime parse b"
    unfolding up by auto
  have "\<forall>b\<in>set apts. isUpcoming parse now b \<longrightarrow> getTime parse a \<le> getTime parse b"
  proof (intro ballI impI)
    fix b assume "b \<in> set apts" "isUpcoming parse now b"
    then have "b \<in> set ?up" by simp
    with least show "getTime parse a \<le> getTime parse b" by blast
  qed
  with a show ?thesis by blast
qed

lemma isUpcoming_iff:
  "isUpcoming parse now a \<longleftrightarrow> (\<exists>t. parse (startsAt a) = Some t \<and> now < t)"
  by (simp add: isUpcoming_def split: option.split)

text \<open>
  Claim C10. The hub's choice of the next appointment is null when no appointment of
  the list starts strictly after the current time; otherwise it is an appointment of
  the list whose start is strictly in the future and the earliest among all the
  appointments that start strictly in the future.
\<close>

theorem getNextAppointment_earliest_upcoming:
  "(getNextAppointment parse now apts = None \<longleftrightarrow>
      (\<forall>a\<in>set apts. \<forall>t. parse (startsAt a) = Some t \<longrightarrow> \<not> now < t)) \<and>
   (\<forall>a. getNextAppointment parse now apts = Some a \<longrightarrow>
      a \<in> set apts \<and>
      (\<exists>t. parse (startsAt a) = Some t \<and> now < t \<and>
         (\<forall>b\<in>set apts. \<forall>s. parse (startsAt b) = Some s \<and> now < s \<longrightarrow> t \<le> s)))"
proof (rule conjI)
  show "getNextAppointment parse now apts = None \<longleftrightarrow>
      (\<forall>a\<in>set apts. \<forall>t. parse (startsAt a) = Some t \<longrightarrow> \<not> now < t)"
    by (simp add: getNextAppointment_None_iff isUpcoming_iff)
next
  show "\<forall>a. getNextAppointment parse now apts = Some a \<longrightarrow>
      a \<in> set apts \<and>
      (\<exists>t. parse (startsAt a) = Some t \<and> now < t \<and>
         (\<forall>b\<in>set apts. \<forall>s. parse (startsAt b) = Some s \<and> now < s \<longrightarrow> t \<le> s))"
  proof (intro allI impI)
  fix a assume "getNextAppointment parse now apts = Some a"
  from getNextAppointment_Some [OF this]
  have mem: "a \<in> set apts" and up: "isUpcoming parse now a"
    and least: "\<forall>b\<in>set apts. isUpcoming parse now b \<longrightarrow> getTime parse a \<le> getTime parse b"
    by blast+
  from up obtain t where t: "parse (startsAt a) = Some t" "now < t"
    by (auto simp: isUpcoming_iff)
  have "\<forall>b\<in>set apts. \<forall>s. parse (startsAt b) = Some s \<and> now < s \<longrightarrow> t \<le> s"
  proof (intro ballI allI impI)
    fix b s assume b: "b \<in> set apts" and "parse (startsAt b) = Some s \<and> now < s"
    then have "isUpcoming parse now b" and "getTime parse b = s"
      by (auto simp: isUpcoming_iff getTime_def)
    with least b t show "t \<le> s" by (auto simp: getTime_def)
  qed
  with mem t show "a \<in> set apts \<and>
      (\<exists>t. parse (startsAt a) = Some t \<and> now < t \<and>
         (\<forall>b\<in>set apts. \<forall>s. parse (startsAt b) = Some s \<and> now < s \<longrightarrow> t \<le> s))"
    by blast
  qed
qed


lemma example_next:
  "getNextAppointment example_parse 1767225600000 example_appointments =
     Some \<lparr>apt_id = ''d'', startsAt = ''2030-01-01T00:00:00.000Z''\<rparr>"
  by (simp add: getNextAppointment_def example_appointments_def isUpcoming_def getTime_def
      example_parse_def)

theorem getNextAppointment_earliest_upcoming_witness:
  "getNextAppointment example_parse 1767225600000 example_appointments =
     Some \<lparr>apt_id = ''d'', startsAt = ''2030-01-01T00:00:00.000Z''\<rparr> \<and>
   \<lparr>apt_id = ''d'', startsAt = ''2030-01-01T00:00:00.000Z''\<rparr> \<in> set example_appointments \<and>
   getNextAppointment example_parse 1767225600000
     [\<lparr>apt_id = ''c'', startsAt = ''2020-01-01T00:00:00.000Z''\<rparr>,
      \<lparr>apt_id = ''b'', startsAt = ''soon''\<rparr>] = None"
proof -
  have past: "\<forall>a\<in>set [\<lparr>apt_id = ''c'', startsAt = ''2020-01-01T00:00:00.000Z''\<rparr>,
                         \<lparr>apt_id = ''b'', startsAt = ''soon''\<rparr>].
      \<forall>t. example_parse (startsAt a) = Some t \<longrightarrow> \<not> 1767225600000 < t"
    by (simp add: example_parse_def)
  from getNextAppointment_earliest_upcoming [of example_parse 1767225600000 example_appointments]
    example_next
  have "\<lparr>apt_id = ''d'', startsAt = ''2030-01-01T00:00:00.000Z''\<rparr> \<in> set example_appointments"
    by blast
  moreover
  from getNextAppointment_earliest_upcoming
    [of example_parse 1767225600000
       "[\<lparr>apt_id = ''c'', startsAt = ''2020-01-01T00:00:00.000Z''\<rparr>,
         \<lparr>apt_id = ''b'', startsAt = ''soon''\<rparr>]"] past
  have "getNextAppointment example_parse 1767225600000
     [\<lparr>apt_id = ''c'', startsAt = ''2020-01-01T00:00:00.000Z''\<rparr>,
      \<lparr>apt_id = ''b'', startsAt = ''soon''\<rparr>] = None"
    by blast
  ultimately show ?thesis using example_next by blast
qed

section \<open>Forms and appointments on the client\<close>

lemma getFormsForPatient_cases:
  "getFormsForPatient fetch pid =
     Inr (case fetch (GetForms pid) of
            Fetched st (Some (FormsEnvelope (Some fs))) \<Rightarrow> if ok st then fs else []
          | _ \<Rightarrow> [])"
  by (simp add: getFormsForPatient_def forms_or_empty_def
      split: FetchOutcome.split option.split ApiBody.split)

lemma getUpcomingAppointments_cases:
  "getUpcomingAppointments fetch pid =
     Inr (case fetch (GetAppointments pid) of
            Fetched st (Some (AppointmentsEnvelope (Some as))) \<Rightarrow> if ok st then as else []
          | _ \<Rightarrow> [])"
  by (simp add: getUpcomingAppointments_def appointments_or_empty_def
      split: FetchOutcome.split option.split ApiBody.split)

text \<open>
  Claim C9. The client-side \<open>getFormsForPatient\<close> and \<open>getUpcomingAppointments\<close>
  always resolve and never reject: whatever the fetch comes to they return a list, and
  on a network failure, on a response that is not 2xx and on a body without the forms
  (appointments) field they return the empty list.
\<close>

theorem forms_and_appointments_never_reject:
  "(\<exists>fs. getFormsForPatient fetch pid = Inr fs) \<and>
   (\<exists>as. getUpcomingAppointments fetch pid = Inr as) \<and>
   (fetch (GetForms pid) = Rejected \<or>
    (\<exists>st body. fetch (GetForms pid) = Fetched st body \<and>
       (\<not> ok st \<or> (\<forall>fs. body \<noteq> Some (FormsEnvelope (Some fs))))) \<longrightarrow>
      getFormsForPatient fetch pid = Inr []) \<and>
   (fetch (GetAppointments pid) = Rejected \<or>
    (\<exists>st body. fetch (GetAppointments pid) = Fetched st body \<and>
       (\<not> ok st \<or> (\<forall>as. body \<noteq> Some (AppointmentsEnvelope (Some as))))) \<longrightarrow>
      getUpcomingAppointments fetch pid = Inr [])"
proof (intro conjI impI)
  show "\<exists>fs. getFormsForPatient fetch pid = Inr fs"
    by (simp add: getFormsForPatient_cases)
  show "\<exists>as. getUpcomingAppointments fetch pid = Inr as"
    by (simp add: getUpcomingAppointments_cases)
next
  assume "fetch (GetForms pid) = Rejected \<or>
    (\<exists>st body. fetch (GetForms pid) = Fetched st body \<and>
       (\<not> ok st \<or> (\<forall>fs. body \<noteq> Some (FormsEnvelope (Some fs)))))"
  then show "getFormsForPatient fetch pid = Inr []"
    by (auto simp: getFormsForPatient_cases split: option.split ApiBody.split)
next
  assume "fetch (GetAppointments pid) = Rejected \<or>
    (\<exists>st body. fetch (GetAppointments pid) = Fetched st body \<and>
       (\<not> ok st \<or> (\<forall>as. body \<noteq> Some (AppointmentsEnvelope (Some as)))))"
  then show "getUpcomingAppointments fetch pid = Inr []"
    by (auto simp: getUpcomingAppointments_cases split: option.split ApiBody.split)
qed

theorem forms_and_appointments_never_reject_witness:
  "getFormsForPatient (\<lambda>req. Rejected) ''42'' = Inr [] \<and>
   getFormsForPatient (\<lambda>req. Fetched 500 (Some (ErrorEnvelope ''Failed to fetch forms''))) ''42'' = Inr [] \<and>
   getUpcomingAppointments (\<lambda>req. Fetched 200 (Some (ErrorEnvelope ''none''))) ''42'' = Inr [] \<and>
   getUpcomingAppointments (\<lambda>req. Fetched 200 None) ''42'' = Inr []"
  using forms_and_appointments_never_reject [of "\<lambda>req. Rejected" "''42''"]
    forms_and_appointments_never_reject
      [of "\<lambda>req. Fetched 500 (Some (ErrorEnvelope ''Failed to fetch forms''))" "''42''"]
    forms_and_appointments_never_reject
      [of "\<lambda>req. Fetched 200 (Some (ErrorEnvelope ''none''))" "''42''"]
    forms_and_appointments_never_reject [of "\<lambda>req. Fetched 200 None" "''42''"]
  by (simp add: ok_def)

section \<open>The flows of the pages\<close>

lemma findPatientByEmail_never_rejects: "\<exists>p. findPatientByEmail fetch e = Inr p"
  by (simp add: findPatientByEmail_def Let_def split: FetchOutcome.split option.split)

lemma lagging_GET:
  "portal example_env lagging (GetPatient ''new.patient@example.com'') =
     Fetched 200 (Some (PatientEnvelope None))"
  by (simp add: portal_def patient_GET_def falsy_def normalized_new makeGraphQLRequest_def
      example_key example_url lagging_def replying_def ok_def users_of_def no_data_def)

lemma lagging_POST:
  "portal example_env lagging
     (PostPatient \<lparr>cb_email = Some ''new.patient@example.com'',
                   cb_password = Some ''temp-password'', cb_firstName = Some ''New'',
                   cb_lastName = Some ''Patient'', cb_phone = None\<rparr>) =
     Fetched 200 (Some (PatientFields
       \<lparr>pat_id = ''99'', firstName = ''New'', lastName = ''Patient'',
        pat_email = Some ''new.patient@example.com'', pat_dob = None, sexAtBirth = None,
        insurance = None, phone = None\<rparr>))"
  by (simp add: portal_def patient_POST_def falsy_def makeGraphQLRequest_def
      example_key example_url lagging_def replying_def ok_def createClient_of_def no_data_def
      new_user_def)

text \<open>
  Claim C1 says that, once \<open>createPatient\<close> has succeeded, a lookup that returns null
  right after it is not read as a failed creation. The demographics page does read it
  so. With a remote that creates the record and whose search does not find it yet,
  \<open>createPatient\<close> resolves with the new id, the lookup that follows resolves with
  null, and \<open>onSubmit\<close> ends with its error message set, having neither updated the
  demographics nor navigated to the hub.
\<close>

theorem onSubmit_reads_null_lookup_as_failure:
  "createPatient (portal example_env lagging)
     \<lparr>cb_email = Some ''new.patient@example.com'', cb_password = Some ''temp-password'',
      cb_firstName = Some ''New'', cb_lastName = Some ''Patient'', cb_phone = None\<rparr> =
     Inr (Some ''99'') \<and>
   findPatientByEmail (portal example_env lagging) ''new.patient@example.com'' = Inr None \<and>
   onSubmit (steady (portal example_env lagging)) (Some ''new.patient@example.com'') example_form idle =
     \<lparr>isLoading = False,
      error = Some ''An error occurred while saving your information. Please try again.'',
      pushed = []\<rparr>"
proof -
  have c: "createPatient (portal example_env lagging)
     \<lparr>cb_email = Some ''new.patient@example.com'', cb_password = Some ''temp-password'',
      cb_firstName = Some ''New'', cb_lastName = Some ''Patient'', cb_phone = None\<rparr> =
     Inr (Some ''99'')"
    by (simp add: createPatient_def lagging_POST ok_def id_of_def)
  have f: "findPatientByEmail (portal example_env lagging) ''new.patient@example.com'' = Inr None"
    by (simp add: findPatientByEmail_def normalized_new lagging_GET ok_def patient_of_def)
  show ?thesis
    by (simp add: c f onSubmit_def falsy_def example_form_def idle_def steady_def)
qed

text \<open>
  Claim C2 says that a lookup whose network call fails, or whose response carries
  GraphQL errors, is surfaced to the calling flow as a failure that can be retried, and
  is never turned into the null of a lookup without a match. The route does answer 500
  in both cases, but the client-side \<open>findPatientByEmail\<close> resolves with null for a
  response that is not 2xx and for a rejected fetch, as it does for an empty search; the
  hub then sends the user to the demographics form in each case.
\<close>

theorem lookup_failure_is_read_as_no_match:
  "snd (patient_GET example_env unreachable (Some ''existing.patient@example.com'')) =
     Response 500 (ErrorEnvelope ''Failed to find patient'') \<and>
   snd (patient_GET example_env graphql_failure (Some ''existing.patient@example.com'')) =
     Response 500 (ErrorEnvelope ''Failed to find patient'') \<and>
   snd (patient_GET example_env empty_search (Some ''existing.patient@example.com'')) =
     Response 200 (PatientEnvelope None) \<and>
   findPatientByEmail (portal example_env unreachable) ''existing.patient@example.com'' = Inr None \<and>
   findPatientByEmail (portal example_env graphql_failure) ''existing.patient@example.com'' = Inr None \<and>
   findPatientByEmail offline ''existing.patient@example.com'' = Inr None \<and>
   findPatientByEmail (portal example_env empty_search) ''existing.patient@example.com'' = Inr None \<and>
   loadPatientData (steady (portal example_env unreachable)) (Some ''existing.patient@example.com'')
       loading =
     loading\<lparr>hub_isLoading := False, hub_pushed := [''/intake/demographics'']\<rparr> \<and>
   loadPatientData (steady (portal example_env empty_search)) (Some ''existing.patient@example.com'')
       loading =
     loading\<lparr>hub_isLoading := False, hub_pushed := [''/intake/demographics'']\<rparr>"
proof -
  let ?e = "''existing.patient@example.com''"
  have g1: "patient_GET example_env unreachable (Some ?e) =
      ([RemoteRequest ''https://api.gethealthie.com/graphql'' ''Basic key'' (FindUserByEmail ?e)],
       Response 500 (ErrorEnvelope ''Failed to find patient''))"
    by (simp add: patient_GET_def falsy_def normalized_existing makeGraphQLRequest_def
        example_key example_url unreachable_def)
  have g2: "patient_GET example_env graphql_failure (Some ?e) =
      ([RemoteRequest ''https://api.gethealthie.com/graphql'' ''Basic key'' (FindUserByEmail ?e)],
       Response 500 (ErrorEnvelope ''Failed to find patient''))"
    by (simp add: patient_GET_def falsy_def normalized_existing makeGraphQLRequest_def
        example_key example_url graphql_failure_def ok_def)
  have g3: "patient_GET example_env empty_search (Some ?e) =
      ([RemoteRequest ''https://api.gethealthie.com/graphql'' ''Basic key'' (FindUserByEmail ?e)],
       Response 200 (PatientEnvelope None))"
    by (simp add: patient_GET_def falsy_def normalized_existing makeGraphQLRequest_def
        example_key example_url empty_search_def replying_def ok_def users_of_def no_data_def)
  have f1: "findPatientByEmail (portal example_env unreachable) ?e = Inr None"
    by (simp add: findPatientByEmail_def normalized_existing portal_def g1 ok_def)
  have f2: "findPatientByEmail (portal example_env graphql_failure) ?e = Inr None"
    by (simp add: findPatientByEmail_def normalized_existing portal_def g2 ok_def)
  have f3: "findPatientByEmail offline ?e = Inr None"
    by (simp add: findPatientByEmail_def offline_def)
  have f4: "findPatientByEmail (portal example_env empty_search) ?e = Inr None"
    by (simp add: findPatientByEmail_def normalized_existing portal_def g3 ok_def patient_of_def)
  show ?thesis
    by (simp add: g1 g2 g3 f1 f2 f3 f4 loadPatientData_def falsy_def loading_def steady_def)
qed

section \<open>The session\<close>

lemma empty_search_lookup:
  "findPatientByEmail (portal example_env empty_search) e = Inr None"
  by (simp add: findPatientByEmail_def portal_def patient_GET_def falsy_def
      makeGraphQLRequest_def example_key example_url empty_search_def replying_def ok_def
      users_of_def no_data_def patient_of_def Let_def)

text \<open>
  Claim C7 says that a session whose \<open>expiresAt\<close> lies in the past is treated as
  unauthenticated at the next access. It is not: a session created at time 0 expires at
  86400000, and at time 86400001 the context still reports it authenticated, hands out
  its email, and the hub page loads instead of redirecting to the login.
\<close>

theorem expired_session_is_authenticated:
  "signIn 0 ''abc123xyz'' '' Jane@Example.com'' ''secret'' = Some stale_session \<and>
   expiresAt stale_session < 86400001 \<and>
   isAuthenticated (AuthProvider (Some stale_session)) \<and>
   ctx_email (AuthProvider (Some stale_session)) = Some ''jane@example.com'' \<and>
   ''/login'' \<notin> set (hub_pushed (loadPatientData (steady (portal example_env empty_search))
                         (ctx_email (AuthProvider (Some stale_session))) loading))"
proof -
  have n: "trim (toLowerCase '' Jane@Example.com'') = ''jane@example.com''" by code_simp
  have d: "decimal 0 = ''0''" by code_simp
  have s: "signIn 0 ''abc123xyz'' '' Jane@Example.com'' ''secret'' = Some stale_session"
    by (simp add: signIn_def n d stale_session_def)
  have e: "ctx_email (AuthProvider (Some stale_session)) = Some ''jane@example.com''"
    by (simp add: AuthProvider_def stale_session_def)
  have l: "''/login'' \<notin> set (hub_pushed (loadPatientData (steady (portal example_env empty_search))
                         (Some ''jane@example.com'') loading))"
    by (simp add: loadPatientData_def falsy_def loading_def empty_search_lookup steady_def)
  show ?thesis
    using s e l by (simp add: stale_session_def AuthProvider_def)
qed

text \<open>
  Claim C7, as amended. The session context treats the user as authenticated exactly
  when it holds a session, from \<open>signIn\<close> until \<open>signOut\<close>, whatever the session's
  \<open>expiresAt\<close>; \<open>signIn\<close> sets \<open>expiresAt\<close> to 24 hours after the sign-in.
\<close>

theorem session_is_authenticated_while_held:
  "(isAuthenticated (AuthProvider s) \<longleftrightarrow> s \<noteq> None) \<and>
   isAuthenticated (AuthProvider (signIn now rnd e pw)) \<and>
   map_option expiresAt (signIn now rnd e pw) = Some (int now + 86400000) \<and>
   \<not> isAuthenticated (AuthProvider signOut)"
  by (simp add: AuthProvider_def signIn_def signOut_def split: option.split)

end
